theory Spec2Isabelle
  imports Complex_Main
begin

section \<open>The Sankey data preparation of app.py\<close>

text \<open>
  The dashboard script \<^verbatim>\<open>app.py\<close> loads three CSV files and builds five figures. Its only
  function with content of its own is \<^verbatim>\<open>prepare_sankey_data\<close> (lines 151-193), which the
  script calls once, as \<^verbatim>\<open>prepare_sankey_data(grouped=True)\<close> (line 195). This theory embeds
  that call: the \<^verbatim>\<open>if grouped:\<close> branch and everything after the \<^verbatim>\<open>if\<close>/\<^verbatim>\<open>else\<close>.
  The pandas operations the function calls (\<^verbatim>\<open>pd.cut\<close>, \<^verbatim>\<open>pd.Categorical\<close>,
  \<^verbatim>\<open>groupby(...).size()\<close>, \<^verbatim>\<open>.cat.codes\<close>, \<^verbatim>\<open>DataFrame.sample\<close>) are library code;
  they are modelled by what pandas computes, each in a definition of the library's name.
\<close>

subsection \<open>Data\<close>

text \<open>Exceptions the modelled lines can raise.\<close>

datatype py_error = KeyError | ValueError

text \<open>
  One line of \<^verbatim>\<open>mental_health_datafinaldata.csv\<close>, restricted to the two columns the
  function reads. An empty cell is read as NaN, here \<open>None\<close>. Work hours are floats whose
  only use is the comparison with the bin edges, so they are modelled as reals.
\<close>

record row =
  Work_Hours :: "real option"
  Stress_Level :: "string option"

text \<open>
  A pandas Categorical: the list of categories and, per row, the position of the row's
  value in that list, \<open>-1\<close> for NaN.
\<close>

record categorical =
  categories :: "string list"
  codes :: "int list"

text \<open>
  The global \<^verbatim>\<open>worklife_df\<close>: the loaded rows and the two columns the function assigns,
  \<open>None\<close> while the frame has no such column.
\<close>

record dataframe =
  rows :: "row list"
  Work_Hours_Grouped :: "categorical option"
  Stress_Level_Sorted :: "categorical option"

text \<open>
  The module globals the function reads (lines 142-149). \<^verbatim>\<open>stress_level_labels\<close> is computed
  from \<^verbatim>\<open>stress_level_order\<close> when the module is loaded (line 143).
\<close>

record globals =
  stress_level_order :: "string list"
  stress_color_mapping :: "string \<rightharpoonup> string"

definition stress_level_labels :: "globals \<Rightarrow> string list" where
  "stress_level_labels g = map (\<lambda>level. level @ '' Stress'') (stress_level_order g)"

definition app_globals :: globals where
  "app_globals =
     \<lparr>stress_level_order = [''Low'', ''Medium'', ''High''],
      stress_color_mapping =
        [''Low Stress'' \<mapsto> ''#7ED957'',
         ''Medium Stress'' \<mapsto> ''#FFC107'',
         ''High Stress'' \<mapsto> ''#FF4C4C'']\<rparr>"

text \<open>The dictionary the function returns (lines 186-193).\<close>

record sankey =
  labels :: "string list"
  node_colors :: "string list"
  source :: "int list"
  target :: "int list"
  value' :: "int list"
  link_colors :: "string list"

text \<open>The frame \<^verbatim>\<open>value_counts\<close> of line 169: the two key columns and the column \<^verbatim>\<open>count\<close>.\<close>

record counts_frame =
  key_source :: categorical
  key_stress :: categorical
  count :: "int list"

subsection \<open>The pandas operations\<close>

text \<open>
  \<^verbatim>\<open>numpy.searchsorted(a, v, side='left')\<close> on an ascending array: the first position
  whose element is not below \<open>v\<close>.
\<close>

definition searchsorted_left :: "real list \<Rightarrow> real \<Rightarrow> nat" where
  "searchsorted_left a v = length (takeWhile (\<lambda>b. b < v) a)"

text \<open>
  \<^verbatim>\<open>pd.cut(x, bins=bins, labels=labels, right=True)\<close> with the default
  \<^verbatim>\<open>include_lowest=False\<close>: pandas computes \<^verbatim>\<open>ids = bins.searchsorted(x, side='left')\<close>,
  masks NaN and the positions \<open>0\<close> and \<open>len(bins)\<close>, and takes label \<open>ids - 1\<close>.
\<close>

definition cut_code :: "real list \<Rightarrow> real option \<Rightarrow> int" where
  "cut_code bins x =
     (case x of
        None \<Rightarrow> - 1
      | Some v \<Rightarrow>
          (let ids = searchsorted_left bins v
           in if ids = length bins \<or> ids = 0 then - 1 else int ids - 1))"

definition pd_cut ::
    "real option list \<Rightarrow> real list \<Rightarrow> string list \<Rightarrow> categorical" where
  "pd_cut x bins lbls = \<lparr>categories = lbls, codes = map (cut_code bins) x\<rparr>"

text \<open>The position of a value in the categories (\<^verbatim>\<open>Index.get_indexer\<close>), \<open>-1\<close> when absent.\<close>

primrec get_indexer :: "string list \<Rightarrow> string \<Rightarrow> int" where
  "get_indexer [] s = - 1"
| "get_indexer (c # cs) s =
     (if s = c then 0
      else (let k = get_indexer cs s in if k < 0 then - 1 else k + 1))"

text \<open>
  \<^verbatim>\<open>pd.Categorical(values, categories=cats, ordered=True)\<close>: a value that is not among the
  categories becomes NaN; categories that are not unique raise ValueError.
\<close>

definition Categorical :: "string option list \<Rightarrow> string list \<Rightarrow> py_error + categorical" where
  "Categorical vals cats =
     (if \<not> distinct cats then Inl ValueError
      else Inr \<lparr>categories = cats,
                codes = map (\<lambda>v. case v of None \<Rightarrow> - 1 | Some s \<Rightarrow> get_indexer cats s) vals\<rparr>)"

text \<open>The values of a categorical column, as iterating over it or reading it back gives them.\<close>

definition cat_value :: "string list \<Rightarrow> int \<Rightarrow> string option" where
  "cat_value cats k = (if 0 \<le> k \<and> nat k < length cats then Some (cats ! nat k) else None)"

definition cat_values :: "categorical \<Rightarrow> string option list" where
  "cat_values c = map (cat_value (categories c)) (codes c)"

text \<open>
  \<^verbatim>\<open>df.groupby([a, b]).size().reset_index(name='count')\<close> for two categorical key columns.
  Rows with a NaN key are dropped. The groups come in the order of the categories. With
  \<^verbatim>\<open>observed=False\<close> there is one group for every pair of categories, of size 0 when no row
  has the pair; with \<^verbatim>\<open>observed=True\<close> only the pairs that occur are groups. The function
  does not pass \<^verbatim>\<open>observed\<close>, so the default of the installed pandas decides: \<^verbatim>\<open>False\<close> up
  to pandas 2.x, \<^verbatim>\<open>True\<close> from pandas 3.0. The default is a parameter of the model.
\<close>

definition groupby_size :: "bool \<Rightarrow> categorical \<Rightarrow> categorical \<Rightarrow> counts_frame" where
  "groupby_size observed a b =
     (let keys = zip (codes a) (codes b);
          groups = List.product (map int [0..<length (categories a)])
                                (map int [0..<length (categories b)]);
          sized = map (\<lambda>g. (g, int (count_list keys g))) groups;
          kept = (if observed then filter (\<lambda>gn. 0 < snd gn) sized else sized)
      in \<lparr>key_source = \<lparr>categories = categories a, codes = map (\<lambda>gn. fst (fst gn)) kept\<rparr>,
          key_stress = \<lparr>categories = categories b, codes = map (\<lambda>gn. snd (fst gn)) kept\<rparr>,
          count = map snd kept\<rparr>)"

text \<open>\<^verbatim>\<open>series.astype('category').cat.codes\<close> of a column that is categorical already.\<close>

definition cat_codes :: "categorical \<Rightarrow> int list" where
  "cat_codes c = codes c"

text \<open>
  \<^verbatim>\<open>df.sample(n=n, random_state=seed)\<close> draws without replacement: pandas raises ValueError
  when \<open>n\<close> exceeds the number of rows and otherwise takes the rows at the first \<open>n\<close>
  positions of \<^verbatim>\<open>RandomState(seed).permutation(len(df))\<close>. The permutation of the seeded
  generator is a parameter.
\<close>

definition sample :: "nat \<Rightarrow> (nat \<Rightarrow> nat list) \<Rightarrow> 'a list \<Rightarrow> py_error + 'a list" where
  "sample n permutation df =
     (if length df < n then Inl ValueError
      else Inr (map (\<lambda>i. df ! i) (take n (permutation (length df)))))"

subsection \<open>The script\<close>

text \<open>Line 93: \<^verbatim>\<open>sampled_health_df = health_df.sample(n=3500, random_state=42)\<close>.\<close>

definition sampled_health_df :: "(nat \<Rightarrow> nat list) \<Rightarrow> 'a list \<Rightarrow> py_error + 'a list" where
  "sampled_health_df permutation_42 health_df = sample 3500 permutation_42 health_df"

text \<open>Lines 153-154.\<close>

definition bins :: "real list" where
  "bins = [0, 10, 20, 30, 40, 50, 60, 70, 80, 90, 100]"

definition bin_labels :: "string list" where
  "bin_labels = [''0-10'', ''11-20'', ''21-30'', ''31-40'', ''41-50'',
                 ''51-60'', ''61-70'', ''71-80'', ''81-90'', ''91-100'']"

text \<open>Lines 173-180: the tint of a link, chosen by the stress level of its group.\<close>

definition link_color :: "string option \<Rightarrow> string" where
  "link_color stress =
     (if stress = Some ''Low'' then ''rgba(126,217,87,0.5)''
      else if stress = Some ''Medium'' then ''rgba(255,193,7,0.5)''
      else ''rgba(255,76,76,0.5)'')"

text \<open>
  Line 183: \<^verbatim>\<open>[stress_color_mapping[label] for label in stress_level_labels]\<close>; a label
  that is not a key raises KeyError.
\<close>

primrec stress_colors_of :: "(string \<rightharpoonup> string) \<Rightarrow> string list \<Rightarrow> py_error + string list" where
  "stress_colors_of m [] = Inr []"
| "stress_colors_of m (l # ls) =
     (case m l of
        None \<Rightarrow> Inl KeyError
      | Some c \<Rightarrow> (case stress_colors_of m ls of Inl e \<Rightarrow> Inl e | Inr cs \<Rightarrow> Inr (c # cs)))"

text \<open>
  \<^verbatim>\<open>prepare_sankey_data(grouped=True)\<close>. The function assigns columns of the global frame,
  so the model takes the frame and returns it with the result; an exception leaves the
  assignments made before it. \<open>observed\<close> is the pandas default of \<^verbatim>\<open>groupby\<close>.
\<close>

definition prepare_sankey_data ::
    "bool \<Rightarrow> globals \<Rightarrow> dataframe \<Rightarrow> (py_error + sankey) \<times> dataframe" where
  "prepare_sankey_data observed g worklife_df =
     (let df1 = worklife_df\<lparr>Work_Hours_Grouped :=
                  Some (pd_cut (map Work_Hours (rows worklife_df)) bins bin_labels)\<rparr>;
          sorted_hours = bin_labels;
          work_hours_labels = map (\<lambda>label. label @ '' Hours'') sorted_hours;
          labels = work_hours_labels @ stress_level_labels g
      in case Categorical (cat_values (pd_cut (map Work_Hours (rows worklife_df)) bins bin_labels))
                sorted_hours of
           Inl e \<Rightarrow> (Inl e, df1)
         | Inr hours_col \<Rightarrow>
             (let df2 = df1\<lparr>Work_Hours_Grouped := Some hours_col\<rparr>
              in case Categorical (map Stress_Level (rows df2)) (stress_level_order g) of
                   Inl e \<Rightarrow> (Inl e, df2)
                 | Inr stress_col \<Rightarrow>
                     (let df3 = df2\<lparr>Stress_Level_Sorted := Some stress_col\<rparr>;
                          value_counts = groupby_size observed hours_col stress_col;
                          source_codes = cat_codes (key_source value_counts);
                          target_codes = map (\<lambda>c. c + int (length sorted_hours))
                                           (cat_codes (key_stress value_counts));
                          link_colors = map link_color (cat_values (key_stress value_counts));
                          work_hours_colors = replicate (length work_hours_labels) ''#4A90E2''
                      in case stress_colors_of (stress_color_mapping g) (stress_level_labels g) of
                           Inl e \<Rightarrow> (Inl e, df3)
                         | Inr stress_colors \<Rightarrow>
                             (Inr \<lparr>labels = labels,
                                   node_colors = work_hours_colors @ stress_colors,
                                   source = source_codes,
                                   target = target_codes,
                                   value' = count value_counts,
                                   link_colors = link_colors\<rparr>,
                              df3))))"

subsection \<open>Notions used in the statements\<close>

text \<open>
  The intervals of \<^verbatim>\<open>pd.cut\<close> as pandas documents them for \<^verbatim>\<open>right=True\<close>: interval \<open>k\<close>
  runs from \<open>bins[k]\<close> (excluded) to \<open>bins[k+1]\<close> (included).
\<close>

definition cut_interval :: "nat \<Rightarrow> real \<Rightarrow> bool" where
  "cut_interval k v = (bins ! k < v \<and> v \<le> bins ! Suc k)"

text \<open>
  The buckets as the specification words them: the ordered buckets partition the domain
  [0, 100] into ten intervals of equal width with the upper bound included, and the lower
  bound is included at the floor of the domain, so that the value 0 falls into the first
  bucket "0-10". A missing value is in no bucket.
\<close>

definition in_bucket :: "nat \<Rightarrow> real \<Rightarrow> bool" where
  "in_bucket k v =
     ((if k = 0 then bins ! 0 \<le> v else bins ! k < v) \<and> v \<le> bins ! Suc k)"

definition falls_in_bucket :: "real option \<Rightarrow> bool" where
  "falls_in_bucket x =
     (case x of
        None \<Rightarrow> False
      | Some v \<Rightarrow> list_ex (\<lambda>k. in_bucket k v) [0..<length bin_labels])"

text \<open>A freshly loaded frame: the rows of the file, none of the derived columns.\<close>

definition loaded :: "row list \<Rightarrow> dataframe" where
  "loaded rs = \<lparr>rows = rs, Work_Hours_Grouped = None, Stress_Level_Sorted = None\<rparr>"

text \<open>The three records of the example in section 8 of the specification.\<close>

definition example_df :: dataframe where
  "example_df =
     loaded [\<lparr>Work_Hours = Some 5, Stress_Level = Some ''Low''\<rparr>,
             \<lparr>Work_Hours = Some 15, Stress_Level = Some ''Low''\<rparr>,
             \<lparr>Work_Hours = Some 5, Stress_Level = Some ''High''\<rparr>]"

text \<open>
  The column line 167 assigns when the categories are unique, and the frame
  \<^verbatim>\<open>value_counts\<close> line 169 then computes from the two derived columns.
\<close>

definition stress_column :: "globals \<Rightarrow> dataframe \<Rightarrow> categorical" where
  "stress_column g df =
     \<lparr>categories = stress_level_order g,
      codes = map (\<lambda>r. case Stress_Level r of
                          None \<Rightarrow> - 1
                        | Some s \<Rightarrow> get_indexer (stress_level_order g) s) (rows df)\<rparr>"

definition value_counts_of :: "bool \<Rightarrow> globals \<Rightarrow> dataframe \<Rightarrow> counts_frame" where
  "value_counts_of observed g df =
     groupby_size observed (pd_cut (map Work_Hours (rows df)) bins bin_labels) (stress_column g df)"

text \<open>
  The records that match a (bucket, category) pair: those that line 155 puts into bucket
  \<open>i\<close> and whose \<^verbatim>\<open>Stress_Level\<close> is category \<open>j\<close>. And one edge for every pair, in the order
  of the buckets and then of the categories: its source index, its target index and the
  number of its matching records.
\<close>

definition matching :: "globals \<Rightarrow> dataframe \<Rightarrow> nat \<Rightarrow> nat \<Rightarrow> row list" where
  "matching g df i j =
     filter (\<lambda>r. cut_code bins (Work_Hours r) = int i
                \<and> Stress_Level r = Some (stress_level_order g ! j)) (rows df)"

definition all_pairs :: "globals \<Rightarrow> dataframe \<Rightarrow> (int \<times> int \<times> int) list" where
  "all_pairs g df =
     map (\<lambda>(i, j). (int i, int (length bin_labels + j), int (length (matching g df i j))))
       (List.product [0..<length bin_labels] [0..<length (stress_level_order g)])"

section \<open>Facts about the pandas operations\<close>

subsection \<open>Binning\<close>

lemma cut_code_bins:
  "cut_code bins (Some v) =
     (if v \<le> 0 \<or> 100 < v then - 1
      else if v \<le> 10 then 0 else if v \<le> 20 then 1 else if v \<le> 30 then 2
      else if v \<le> 40 then 3 else if v \<le> 50 then 4 else if v \<le> 60 then 5
      else if v \<le> 70 then 6 else if v \<le> 80 then 7 else if v \<le> 90 then 8 else 9)"
  by (simp add: cut_code_def searchsorted_left_def bins_def)

lemma cut_code_None: "cut_code b None = - 1"
  by (simp add: cut_code_def)

lemma cut_code_range: "- 1 \<le> cut_code bins x \<and> cut_code bins x < 10"
  by (cases x) (simp_all add: cut_code_None cut_code_bins)

lemma upt_10: "[0..<10] = [0, 1, 2, 3, 4, 5, 6, 7, 8, 9]"
  by (simp add: upt_rec)

lemma length_bin_labels: "length bin_labels = 10"
  by (simp add: bin_labels_def)

lemma distinct_bin_labels: "distinct bin_labels"
  by (simp add: bin_labels_def)

lemma falls_in_bucket_range: "falls_in_bucket (Some v) = (0 \<le> v \<and> v \<le> 100)"
  unfolding falls_in_bucket_def length_bin_labels upt_10
  by (simp add: in_bucket_def bins_def) linarith

lemma cut_code_interval:
  assumes "k < 10"
  shows "(cut_code bins (Some v) = int k) = cut_interval k v"
proof -
  from assms have "k \<in> set [0..<10]" by simp
  then have "k = 0 \<or> k = 1 \<or> k = 2 \<or> k = 3 \<or> k = 4 \<or> k = 5 \<or> k = 6 \<or> k = 7 \<or> k = 8 \<or> k = 9"
    unfolding upt_10 by simp
  then show ?thesis
    unfolding cut_code_bins cut_interval_def
    by (elim disjE) (simp_all add: bins_def)
qed

subsection \<open>Categoricals\<close>

lemma get_indexer_range: "- 1 \<le> get_indexer cs s \<and> get_indexer cs s < int (length cs)"
  by (induction cs) (simp_all add: Let_def)

lemma get_indexer_mem: "(0 \<le> get_indexer cs s) = (s \<in> set cs)"
  by (induction cs) (auto simp add: Let_def)

lemma get_indexer_nth:
  "distinct cs \<Longrightarrow> k < length cs \<Longrightarrow> get_indexer cs (cs ! k) = int k"
proof (induction cs arbitrary: k)
  case Nil
  then show ?case by simp
next
  case (Cons c cs)
  show ?case
  proof (cases k)
    case 0
    then show ?thesis by simp
  next
    case (Suc j)
    with Cons.prems have j: "j < length cs" and d: "distinct cs" and n: "cs ! j \<noteq> c"
      by auto
    from Cons.IH [OF d j] Suc n show ?thesis by (simp add: Let_def)
  qed
qed

lemma recode_value:
  assumes "distinct cs" and "- 1 \<le> k" and "k < int (length cs)"
  shows "(case cat_value cs k of None \<Rightarrow> - 1 | Some s \<Rightarrow> get_indexer cs s) = k"
proof (cases "0 \<le> k")
  case True
  with assms have "nat k < length cs" by simp
  with assms(1) True show ?thesis
    by (simp add: cat_value_def get_indexer_nth)
next
  case False
  with assms(2) show ?thesis by (simp add: cat_value_def)
qed

text \<open>Line 166 re-encodes the column of line 155 over the same labels: nothing changes.\<close>

lemma recode_cut:
  "Categorical (cat_values (pd_cut xs bins bin_labels)) bin_labels = Inr (pd_cut xs bins bin_labels)"
proof -
  have "(case cat_value bin_labels (cut_code bins x) of None \<Rightarrow> - 1
         | Some s \<Rightarrow> get_indexer bin_labels s) = cut_code bins x" for x
    using cut_code_range [of x]
    by (intro recode_value) (simp_all add: distinct_bin_labels length_bin_labels)
  then show ?thesis
    by (simp add: Categorical_def cat_values_def pd_cut_def distinct_bin_labels o_def)
qed

subsection \<open>Group sizes\<close>

lemma int_image_mem: "(a \<in> int ` {0..<m}) = (0 \<le> a \<and> a < int m)"
proof
  assume "a \<in> int ` {0..<m}"
  then show "0 \<le> a \<and> a < int m" by auto
next
  assume h: "0 \<le> a \<and> a < int m"
  then have "nat a \<in> {0..<m}" and "a = int (nat a)" by auto
  then show "a \<in> int ` {0..<m}" by (rule_tac image_eqI)
qed

lemma grid_mem:
  "(k \<in> set (List.product (map int [0..<m]) (map int [0..<n]))) =
     (0 \<le> fst k \<and> fst k < int m \<and> 0 \<le> snd k \<and> snd k < int n)"
  by (cases k) (simp add: int_image_mem)

lemma distinct_grid: "distinct (List.product (map int [0..<m]) (map int [0..<n]))"
  by (simp add: distinct_product distinct_map)

lemma sum_count_list:
  "distinct gs \<Longrightarrow>
     sum_list (map (\<lambda>g. int (count_list ks g)) gs) = int (length (filter (\<lambda>k. k \<in> set gs) ks))"
proof (induction gs)
  case Nil
  then show ?case by simp
next
  case (Cons g gs)
  then have notin: "g \<notin> set gs" and d: "distinct gs" by simp_all
  have split: "length (filter (\<lambda>k. k \<in> set (g # gs)) ks) =
                 count_list ks g + length (filter (\<lambda>k. k \<in> set gs) ks)"
    using notin by (induction ks) auto
  show ?case
    using Cons.IH [OF d] split by simp
qed

lemma sum_filter_pos:
  "\<forall>x\<in>set xs. 0 \<le> snd x \<Longrightarrow>
     sum_list (map snd (filter (\<lambda>x. 0 < snd x) xs)) = sum_list (map snd xs :: int list)"
  by (induction xs) auto

lemma groupby_count_sum:
  "sum_list (count (groupby_size observed a b)) =
     int (length (filter (\<lambda>k. 0 \<le> fst k \<and> fst k < int (length (categories a))
                               \<and> 0 \<le> snd k \<and> snd k < int (length (categories b)))
                    (zip (codes a) (codes b))))"
proof -
  let ?gs = "List.product (map int [0..<length (categories a)]) (map int [0..<length (categories b)])"
  let ?sized = "map (\<lambda>g. (g, int (count_list (zip (codes a) (codes b)) g))) ?gs"
  have all: "sum_list (map snd ?sized) =
               int (length (filter (\<lambda>k. k \<in> set ?gs) (zip (codes a) (codes b))))"
    using sum_count_list [OF distinct_grid, of "zip (codes a) (codes b)"] by (simp add: o_def)
  have pos: "sum_list (map snd (filter (\<lambda>x. 0 < snd x) ?sized)) = sum_list (map snd ?sized)"
    by (rule sum_filter_pos) simp
  have "sum_list (count (groupby_size observed a b)) = sum_list (map snd ?sized)"
    using pos by (simp add: groupby_size_def Let_def)
  with all [unfolded grid_mem] show ?thesis by simp
qed

lemma groupby_count_nonneg: "\<forall>v\<in>set (count (groupby_size observed a b)). 0 \<le> v"
  by (auto simp add: groupby_size_def Let_def)

lemma groupby_count_pos: "\<forall>v\<in>set (count (groupby_size True a b)). 0 < v"
  by (auto simp add: groupby_size_def Let_def)

lemma groupby_count_length:
  "length (count (groupby_size False a b)) = length (categories a) * length (categories b)"
  by (simp add: groupby_size_def Let_def)

lemma groupby_lengths:
  "length (codes (key_source (groupby_size observed a b))) = length (count (groupby_size observed a b))"
  "length (codes (key_stress (groupby_size observed a b))) = length (count (groupby_size observed a b))"
  by (simp_all add: groupby_size_def Let_def)

lemma groupby_source_range:
  "\<forall>c\<in>set (codes (key_source (groupby_size observed a b))).
     0 \<le> c \<and> c < int (length (categories a))"
  by (auto simp add: groupby_size_def Let_def)

lemma groupby_stress_range:
  "\<forall>c\<in>set (codes (key_stress (groupby_size observed a b))).
     0 \<le> c \<and> c < int (length (categories b))"
  by (auto simp add: groupby_size_def Let_def)

subsection \<open>Node colours\<close>

lemma stress_colors_of_length:
  "stress_colors_of m ls = Inr cs \<Longrightarrow> length cs = length ls"
  by (induction ls arbitrary: cs) (auto split: option.splits sum.splits)

lemma stress_colors_of_values:
  "stress_colors_of m ls = Inr cs \<Longrightarrow> map Some cs = map m ls"
  by (induction ls arbitrary: cs) (auto split: option.splits sum.splits)

lemma stress_colors_of_missing:
  "l \<in> set ls \<Longrightarrow> m l = None \<Longrightarrow> stress_colors_of m ls = Inl KeyError"
  by (induction ls) (auto split: option.splits sum.splits)

lemma stress_colors_of_app:
  "stress_colors_of (stress_color_mapping app_globals) (stress_level_labels app_globals) =
     Inr [''#7ED957'', ''#FFC107'', ''#FF4C4C'']"
  by (simp add: app_globals_def stress_level_labels_def)

section \<open>The function, step by step\<close>

text \<open>
  The function with line 166 resolved: the only exceptions left are the ValueError of
  line 167 (categories that repeat) and the KeyError of line 183.
\<close>

lemma prepare_sankey_data_unfold:
  "prepare_sankey_data observed g df =
     (let df2 = df\<lparr>Work_Hours_Grouped :=
                  Some (pd_cut (map Work_Hours (rows df)) bins bin_labels)\<rparr>
      in if \<not> distinct (stress_level_order g) then (Inl ValueError, df2)
         else
           (let df3 = df2\<lparr>Stress_Level_Sorted := Some (stress_column g df)\<rparr>;
                value_counts = value_counts_of observed g df
            in case stress_colors_of (stress_color_mapping g) (stress_level_labels g) of
                 Inl e \<Rightarrow> (Inl e, df3)
               | Inr stress_colors \<Rightarrow>
                   (Inr \<lparr>labels = map (\<lambda>label. label @ '' Hours'') bin_labels
                                      @ stress_level_labels g,
                         node_colors = replicate (length bin_labels) ''#4A90E2'' @ stress_colors,
                         source = codes (key_source value_counts),
                         target = map (\<lambda>c. c + int (length bin_labels))
                                    (codes (key_stress value_counts)),
                         value' = count value_counts,
                         link_colors = map link_color (cat_values (key_stress value_counts))\<rparr>,
                    df3)))"
  unfolding prepare_sankey_data_def Let_def recode_cut value_counts_of_def stress_column_def
  by (simp add: Categorical_def cat_codes_def o_def cong: sum.case_cong option.case_cong)

text \<open>What a call that returns has returned.\<close>

lemma prepare_sankey_data_Inr:
  assumes "fst (prepare_sankey_data observed g df) = Inr out"
  shows "distinct (stress_level_order g) \<and>
         (\<exists>sc. stress_colors_of (stress_color_mapping g) (stress_level_labels g) = Inr sc \<and>
            out = \<lparr>labels = map (\<lambda>label. label @ '' Hours'') bin_labels @ stress_level_labels g,
                   node_colors = replicate (length bin_labels) ''#4A90E2'' @ sc,
                   source = codes (key_source (value_counts_of observed g df)),
                   target = map (\<lambda>c. c + int (length bin_labels))
                              (codes (key_stress (value_counts_of observed g df))),
                   value' = count (value_counts_of observed g df),
                   link_colors = map link_color
                                   (cat_values (key_stress (value_counts_of observed g df)))\<rparr>)"
proof (cases "distinct (stress_level_order g)")
  case False
  with assms show ?thesis
    unfolding prepare_sankey_data_unfold Let_def by simp
next
  case True
  show ?thesis
  proof (cases "stress_colors_of (stress_color_mapping g) (stress_level_labels g)")
    case (Inl e)
    with assms True show ?thesis
      unfolding prepare_sankey_data_unfold Let_def by simp
  next
    case (Inr sc)
    with assms True show ?thesis
      unfolding prepare_sankey_data_unfold Let_def by simp
  qed
qed

text \<open>With the globals of the script, the call returns.\<close>

lemma prepare_sankey_data_app:
  "fst (prepare_sankey_data observed app_globals df) =
     Inr \<lparr>labels = map (\<lambda>label. label @ '' Hours'') bin_labels @ stress_level_labels app_globals,
          node_colors = replicate (length bin_labels) ''#4A90E2''
                          @ [''#7ED957'', ''#FFC107'', ''#FF4C4C''],
          source = codes (key_source (value_counts_of observed app_globals df)),
          target = map (\<lambda>c. c + int (length bin_labels))
                     (codes (key_stress (value_counts_of observed app_globals df))),
          value' = count (value_counts_of observed app_globals df),
          link_colors = map link_color
                          (cat_values (key_stress (value_counts_of observed app_globals df)))\<rparr>"
proof -
  have d: "distinct (stress_level_order app_globals)"
    by (simp add: app_globals_def)
  show ?thesis
    unfolding prepare_sankey_data_unfold Let_def stress_colors_of_app
    using d by simp
qed

subsection \<open>The example of the specification, run\<close>

lemma example_observed:
  "prepare_sankey_data True app_globals example_df =
     (Inr \<lparr>labels = [''0-10 Hours'', ''11-20 Hours'', ''21-30 Hours'', ''31-40 Hours'',
                     ''41-50 Hours'', ''51-60 Hours'', ''61-70 Hours'', ''71-80 Hours'',
                     ''81-90 Hours'', ''91-100 Hours'',
                     ''Low Stress'', ''Medium Stress'', ''High Stress''],
           node_colors = [''#4A90E2'', ''#4A90E2'', ''#4A90E2'', ''#4A90E2'', ''#4A90E2'',
                          ''#4A90E2'', ''#4A90E2'', ''#4A90E2'', ''#4A90E2'', ''#4A90E2'',
                          ''#7ED957'', ''#FFC107'', ''#FF4C4C''],
           source = [0, 0, 1],
           target = [10, 12, 10],
           value' = [1, 1, 1],
           link_colors = [''rgba(126,217,87,0.5)'', ''rgba(255,76,76,0.5)'',
                          ''rgba(126,217,87,0.5)'']\<rparr>,
      \<lparr>rows = rows example_df,
       Work_Hours_Grouped = Some \<lparr>categories = bin_labels, codes = [0, 1, 0]\<rparr>,
       Stress_Level_Sorted = Some \<lparr>categories = [''Low'', ''Medium'', ''High''],
                                    codes = [0, 0, 2]\<rparr>\<rparr>)"
  by (simp add: prepare_sankey_data_unfold value_counts_of_def stress_column_def
      example_df_def loaded_def app_globals_def
      stress_level_labels_def pd_cut_def cut_code_bins groupby_size_def cat_values_def
      cat_value_def link_color_def bin_labels_def Let_def)

lemma example_all_pairs:
  "map_sum id value' (fst (prepare_sankey_data False app_globals example_df)) =
     Inr [1, 0, 1, 1, 0, 0, 0, 0, 0, 0, 0, 0, 0, 0, 0,
          0, 0, 0, 0, 0, 0, 0, 0, 0, 0, 0, 0, 0, 0, 0]"
  by (simp add: prepare_sankey_data_unfold value_counts_of_def stress_column_def
      example_df_def loaded_def app_globals_def
      stress_level_labels_def pd_cut_def cut_code_bins groupby_size_def bin_labels_def Let_def)

subsection \<open>The sum of the group sizes\<close>

lemma zip_map_same: "zip (map f xs) (map h xs) = map (\<lambda>x. (f x, h x)) xs"
  by (induction xs) simp_all

lemma stress_code_mem:
  "(0 \<le> (case s of None \<Rightarrow> - 1 | Some c \<Rightarrow> get_indexer cs c)
      \<and> (case s of None \<Rightarrow> - 1 | Some c \<Rightarrow> get_indexer cs c) < int (length cs))
   = (s \<in> Some ` set cs)"
proof (cases s)
  case None
  then show ?thesis by auto
next
  case (Some c)
  then show ?thesis
    using get_indexer_range [of cs c] get_indexer_mem [of cs c] by auto
qed

lemma hours_code_mem:
  "(0 \<le> cut_code bins h \<and> cut_code bins h < int (length bin_labels)) = (0 \<le> cut_code bins h)"
  using cut_code_range [of h] by (simp add: length_bin_labels)

text \<open>
  The weights sum to the number of records to which line 155 gives a bucket and
  line 167 a category.
\<close>

lemma value_counts_sum:
  "sum_list (count (value_counts_of observed g df)) =
     int (length (filter (\<lambda>r. 0 \<le> cut_code bins (Work_Hours r)
                              \<and> Stress_Level r \<in> Some ` set (stress_level_order g)) (rows df)))"
proof -
  let ?code = "\<lambda>r. case Stress_Level r of None \<Rightarrow> - 1
                     | Some s \<Rightarrow> get_indexer (stress_level_order g) s"
  have keys: "zip (codes (pd_cut (map Work_Hours (rows df)) bins bin_labels))
                  (codes (stress_column g df)) =
              map (\<lambda>r. (cut_code bins (Work_Hours r), ?code r)) (rows df)"
    by (simp add: pd_cut_def stress_column_def zip_map_same [symmetric] o_def)
  have cats: "categories (pd_cut (map Work_Hours (rows df)) bins bin_labels) = bin_labels"
             "categories (stress_column g df) = stress_level_order g"
    by (simp_all add: pd_cut_def stress_column_def)
  have "sum_list (count (value_counts_of observed g df)) =
          int (length (filter (\<lambda>r. (0 \<le> cut_code bins (Work_Hours r)
                                       \<and> cut_code bins (Work_Hours r) < int (length bin_labels))
                                   \<and> (0 \<le> ?code r \<and> ?code r < int (length (stress_level_order g))))
                         (rows df)))"
    unfolding value_counts_of_def groupby_count_sum keys cats
    by (simp add: filter_map o_def)
  then show ?thesis
    unfolding hours_code_mem stress_code_mem .
qed

subsection \<open>The edges, pair by pair\<close>

lemma product_map:
  "List.product (map f xs) (map h ys) = map (\<lambda>(x, y). (f x, h y)) (List.product xs ys)"
  by (induction xs) (simp_all add: o_def)

lemma zip3_map_same:
  "zip (map f xs) (zip (map h xs) (map k xs)) = map (\<lambda>x. (f x, h x, k x)) xs"
  by (induction xs) simp_all

lemma get_indexer_value:
  "0 \<le> get_indexer cs s \<Longrightarrow> cs ! nat (get_indexer cs s) = s"
proof (induction cs)
  case Nil
  then show ?case by simp
next
  case (Cons c cs)
  show ?case
  proof (cases "s = c")
    case True
    then show ?thesis by simp
  next
    case False
    with Cons.prems have pos: "0 \<le> get_indexer cs s"
      by (simp add: Let_def split: if_splits)
    with False have "get_indexer (c # cs) s = get_indexer cs s + 1"
      by (simp add: Let_def)
    with pos Cons.IH [OF pos] show ?thesis
      by (simp add: nat_add_distrib)
  qed
qed

lemma get_indexer_eq_iff:
  assumes "distinct cs" and "j < length cs"
  shows "(get_indexer cs s = int j) = (s = cs ! j)"
proof
  assume h: "get_indexer cs s = int j"
  then have "0 \<le> get_indexer cs s" by simp
  from get_indexer_value [OF this] h show "s = cs ! j" by simp
next
  assume "s = cs ! j"
  with assms show "get_indexer cs s = int j" by (simp add: get_indexer_nth)
qed

lemma count_list_map:
  "count_list (map f xs) k = length (filter (\<lambda>x. f x = k) xs)"
  by (induction xs) simp_all

text \<open>The rows of \<^verbatim>\<open>value_counts\<close> as triples, whatever the two key columns.\<close>

lemma groupby_edges:
  "zip (codes (key_source (groupby_size observed a b)))
       (zip (map (\<lambda>c. c + d) (codes (key_stress (groupby_size observed a b))))
            (count (groupby_size observed a b))) =
     (let ps = map (\<lambda>(i, j). (int i, int j + d,
                               int (count_list (zip (codes a) (codes b)) (int i, int j))))
                 (List.product [0..<length (categories a)] [0..<length (categories b)])
      in if observed then filter (\<lambda>(s, t, v). 0 < v) ps else ps)"
  unfolding groupby_size_def Let_def product_map
  by (simp add: zip3_map_same filter_map o_def split_def)

lemma value_counts_edges:
  assumes "distinct (stress_level_order g)"
  shows "zip (codes (key_source (value_counts_of observed g df)))
       (zip (map (\<lambda>c. c + int (length bin_labels))
               (codes (key_stress (value_counts_of observed g df))))
            (count (value_counts_of observed g df))) =
     (if observed then filter (\<lambda>(s, t, v). 0 < v) (all_pairs g df) else all_pairs g df)"
proof -
  let ?code = "\<lambda>r. case Stress_Level r of None \<Rightarrow> - 1
                     | Some s \<Rightarrow> get_indexer (stress_level_order g) s"
  have keys: "zip (codes (pd_cut (map Work_Hours (rows df)) bins bin_labels))
                  (codes (stress_column g df)) =
              map (\<lambda>r. (cut_code bins (Work_Hours r), ?code r)) (rows df)"
    by (simp add: pd_cut_def stress_column_def zip_map_same [symmetric] o_def)
  have cats: "categories (pd_cut (map Work_Hours (rows df)) bins bin_labels) = bin_labels"
             "categories (stress_column g df) = stress_level_order g"
    by (simp_all add: pd_cut_def stress_column_def)
  have code: "(?code r = int j) = (Stress_Level r = Some (stress_level_order g ! j))"
    if "j < length (stress_level_order g)" for r :: row and j
    using get_indexer_eq_iff [OF assms that] by (cases "Stress_Level r") simp_all
  have cnt: "count_list (map (\<lambda>r. (cut_code bins (Work_Hours r), ?code r)) (rows df)) (int i, int j)
               = length (matching g df i j)"
    if "j < length (stress_level_order g)" for i j
    unfolding count_list_map matching_def using code [OF that] by simp
  have ps: "map (\<lambda>(i, j). (int i, int j + int (length bin_labels),
                  int (count_list (map (\<lambda>r. (cut_code bins (Work_Hours r), ?code r)) (rows df))
                         (int i, int j))))
              (List.product [0..<length bin_labels] [0..<length (stress_level_order g)])
            = all_pairs g df"
    unfolding all_pairs_def
    by (rule map_cong) (auto simp add: cnt)
  show ?thesis
    unfolding value_counts_of_def groupby_edges keys cats ps Let_def ..
qed

lemma stress_colors_of_total:
  "\<forall>l\<in>set ls. m l \<noteq> None \<Longrightarrow> \<exists>cs. stress_colors_of m ls = Inr cs"
  by (induction ls) auto

section \<open>The claims\<close>

subsection \<open>C1: edges of weight 0\<close>

text \<open>
  C1 says that the builder emits no edge of weight 0: a (bucket, category) pair with no
  matching record produces no edge, so every entry of the value array is strictly
  positive. Whether that holds is decided by the default of \<^verbatim>\<open>groupby(observed=...)\<close>,
  which line 169 leaves to pandas. The theorem is the claim as amended. When the call
  returns, the three edge arrays have the same length and, read together as triples of
  source, target and weight, they are: with the default \<^verbatim>\<open>observed=False\<close> (pandas up to
  2.x), one edge for every pair of one of the 10 buckets and one category, in bucket and
  then category order, whose weight is the number of records matching the pair, 0 when
  there is none; with the default \<^verbatim>\<open>observed=True\<close> (pandas 3.0 and later), those of these
  edges whose weight is positive, so that no edge of weight 0 is emitted. No weight is
  negative under either default.
\<close>

theorem C1_edge_weights_by_observed:
  assumes "fst (prepare_sankey_data observed g df) = Inr out"
  shows "length (source out) = length (value' out)
       \<and> length (target out) = length (value' out)
       \<and> zip (source out) (zip (target out) (value' out)) =
           (if observed then filter (\<lambda>(s, t, v). 0 < v) (all_pairs g df) else all_pairs g df)
       \<and> (observed \<longrightarrow> (\<forall>v\<in>set (value' out). 0 < v))
       \<and> (\<not> observed \<longrightarrow>
            length (value' out) = length bin_labels * length (stress_level_order g))
       \<and> (\<forall>v\<in>set (value' out). 0 \<le> v)"
proof -
  from prepare_sankey_data_Inr [OF assms]
  have d: "distinct (stress_level_order g)"
    and s: "source out = codes (key_source (value_counts_of observed g df))"
    and t: "target out = map (\<lambda>c. c + int (length bin_labels))
                           (codes (key_stress (value_counts_of observed g df)))"
    and v: "value' out = count (value_counts_of observed g df)"
    by auto
  have lens: "length (source out) = length (value' out)"
             "length (target out) = length (value' out)"
    unfolding s t v value_counts_of_def by (simp_all add: groupby_lengths)
  have edges: "zip (source out) (zip (target out) (value' out)) =
           (if observed then filter (\<lambda>(s, t, v). 0 < v) (all_pairs g df) else all_pairs g df)"
    unfolding s t v by (rule value_counts_edges [OF d])
  have pos: "observed \<longrightarrow> (\<forall>v\<in>set (value' out). 0 < v)"
    unfolding v value_counts_of_def using groupby_count_pos by auto
  have len: "\<not> observed \<longrightarrow>
               length (value' out) = length bin_labels * length (stress_level_order g)"
    unfolding v value_counts_of_def
    by (simp add: groupby_count_length pd_cut_def stress_column_def)
  have nonneg: "\<forall>v\<in>set (value' out). 0 \<le> v"
    unfolding v value_counts_of_def by (rule groupby_count_nonneg)
  from lens edges pos len nonneg show ?thesis by blast
qed

text \<open>
  The claim as stated fails on the records of the specification's own example under the
  default \<^verbatim>\<open>observed=False\<close>: the value array has 30 entries, 27 of them 0 (the second
  entry is the edge from bucket "0-10" to "Medium", which no record has).
\<close>

theorem C1_counterexample:
  "map_sum id value' (fst (prepare_sankey_data False app_globals example_df)) =
     Inr [1, 0, 1, 1, 0, 0, 0, 0, 0, 0, 0, 0, 0, 0, 0,
          0, 0, 0, 0, 0, 0, 0, 0, 0, 0, 0, 0, 0, 0, 0]"
  by (rule example_all_pairs)

text \<open>
  The amended claim at the example, under both defaults: three edges of weight 1 under
  \<^verbatim>\<open>observed=True\<close>; 30 edges under \<^verbatim>\<open>observed=False\<close>, of which the first four are the pairs
  of bucket "0-10" with "Low", "Medium" (no record, weight 0) and "High", and of bucket
  "11-20" with "Low".
\<close>

theorem C1_witness:
  "fst (prepare_sankey_data True app_globals example_df) =
     Inr \<lparr>labels = [''0-10 Hours'', ''11-20 Hours'', ''21-30 Hours'', ''31-40 Hours'',
                    ''41-50 Hours'', ''51-60 Hours'', ''61-70 Hours'', ''71-80 Hours'',
                    ''81-90 Hours'', ''91-100 Hours'',
                    ''Low Stress'', ''Medium Stress'', ''High Stress''],
          node_colors = [''#4A90E2'', ''#4A90E2'', ''#4A90E2'', ''#4A90E2'', ''#4A90E2'',
                         ''#4A90E2'', ''#4A90E2'', ''#4A90E2'', ''#4A90E2'', ''#4A90E2'',
                         ''#7ED957'', ''#FFC107'', ''#FF4C4C''],
          source = [0, 0, 1],
          target = [10, 12, 10],
          value' = [1, 1, 1],
          link_colors = [''rgba(126,217,87,0.5)'', ''rgba(255,76,76,0.5)'',
                         ''rgba(126,217,87,0.5)'']\<rparr>
   \<and> list_all (\<lambda>v. 0 < v) [1, 1, 1 :: int]
   \<and> filter (\<lambda>(s, t, v). 0 < v) (all_pairs app_globals example_df) =
       [(0, 10, 1), (0, 12, 1), (1, 10, 1)]
   \<and> map_sum id (length \<circ> value') (fst (prepare_sankey_data False app_globals example_df))
       = Inr (10 * 3)
   \<and> map_sum id (\<lambda>out. take 4 (zip (source out) (zip (target out) (value' out))))
        (fst (prepare_sankey_data False app_globals example_df))
       = Inr [(0, 10, 1), (0, 11, 0), (0, 12, 1), (1, 10, 1)]
   \<and> take 4 (all_pairs app_globals example_df) = [(0, 10, 1), (0, 11, 0), (0, 12, 1), (1, 10, 1)]"
proof -
  let ?out = "\<lparr>labels = [''0-10 Hours'', ''11-20 Hours'', ''21-30 Hours'', ''31-40 Hours'',
                    ''41-50 Hours'', ''51-60 Hours'', ''61-70 Hours'', ''71-80 Hours'',
                    ''81-90 Hours'', ''91-100 Hours'',
                    ''Low Stress'', ''Medium Stress'', ''High Stress''],
          node_colors = [''#4A90E2'', ''#4A90E2'', ''#4A90E2'', ''#4A90E2'', ''#4A90E2'',
                         ''#4A90E2'', ''#4A90E2'', ''#4A90E2'', ''#4A90E2'', ''#4A90E2'',
                         ''#7ED957'', ''#FFC107'', ''#FF4C4C''],
          source = [0, 0, 1],
          target = [10, 12, 10],
          value' = [1, 1, 1],
          link_colors = [''rgba(126,217,87,0.5)'', ''rgba(255,76,76,0.5)'',
                         ''rgba(126,217,87,0.5)'']\<rparr>"
  have run: "fst (prepare_sankey_data True app_globals example_df) = Inr ?out"
    by (simp add: example_observed)
  obtain out where all_run: "fst (prepare_sankey_data False app_globals example_df) = Inr out"
    using prepare_sankey_data_app [of False example_df] by blast
  have pairs: "take 4 (all_pairs app_globals example_df) =
                 [(0, 10, 1), (0, 11, 0), (0, 12, 1), (1, 10, 1)]"
    by (simp add: all_pairs_def matching_def example_df_def loaded_def app_globals_def
        bin_labels_def cut_code_bins)
  from C1_edge_weights_by_observed [OF run]
  have pos: "list_all (\<lambda>v. 0 < v) [1, 1, 1 :: int]"
    and kept: "filter (\<lambda>(s, t, v). 0 < v) (all_pairs app_globals example_df) =
                 [(0, 10, 1), (0, 12, 1), (1, 10, 1)]"
    by simp_all
  from C1_edge_weights_by_observed [OF all_run]
  have len: "length (value' out) = 10 * 3"
    and edges: "zip (source out) (zip (target out) (value' out)) = all_pairs app_globals example_df"
    by (simp_all add: length_bin_labels app_globals_def)
  from run all_run pos kept len edges pairs show ?thesis by simp
qed

subsection \<open>C2: the sum of the edge weights\<close>

text \<open>
  C2 says that the edge weights sum to the number of records whose \<^verbatim>\<open>Work_Hours\<close> value
  falls within some defined bucket, a record outside every bucket being left out without
  an error. The specification puts the value 0 into the first bucket "0-10", and the code
  labels that bucket "0-10". The code does not count such a record: \<^verbatim>\<open>pd.cut\<close> is called
  without \<^verbatim>\<open>include_lowest=True\<close>, so a record with 0 hours gets no bucket and \<^verbatim>\<open>groupby\<close>
  drops it. On the frame of the single record (0, "Low") one record falls within a
  bucket, and the weights sum to 0 under either pandas default. This is the defect
  of C3, seen in the sum.
\<close>

theorem C2_zero_hours_record_not_counted:
  "map (falls_in_bucket \<circ> Work_Hours) [\<lparr>Work_Hours = Some 0, Stress_Level = Some ''Low''\<rparr>]
     = [True]
   \<and> map_sum id (sum_list \<circ> value')
       (fst (prepare_sankey_data True app_globals
          (loaded [\<lparr>Work_Hours = Some 0, Stress_Level = Some ''Low''\<rparr>]))) = Inr 0
   \<and> map_sum id (sum_list \<circ> value')
       (fst (prepare_sankey_data False app_globals
          (loaded [\<lparr>Work_Hours = Some 0, Stress_Level = Some ''Low''\<rparr>]))) = Inr 0"
  by (simp add: prepare_sankey_data_unfold value_counts_of_def stress_column_def
      loaded_def app_globals_def stress_level_labels_def pd_cut_def cut_code_bins
      groupby_size_def bin_labels_def falls_in_bucket_range Let_def)

subsection \<open>C3: a record with value 0\<close>

text \<open>
  C3 says that a record with value exactly 0 is assigned to the first bucket "0-10", so
  that the buckets cover all of [0, 100]. The code does not do that: \<^verbatim>\<open>pd.cut\<close> is called
  with \<^verbatim>\<open>right=True\<close> and without \<^verbatim>\<open>include_lowest=True\<close>, so the first interval is open
  at 0. A record with 0 hours gets code \<open>-1\<close> (NaN), is given no bucket, and contributes
  to no edge: under \<^verbatim>\<open>observed=True\<close> a frame of that one record has no edge at all, while
  a record with 10 hours is in the bucket the code labels "0-10".
\<close>

theorem C3_zero_hours_in_no_bucket:
  "codes (pd_cut [Some 0, Some 10] bins bin_labels) = [- 1, 0]
   \<and> cat_values (pd_cut [Some 0, Some 10] bins bin_labels) = [None, Some ''0-10'']
   \<and> map_sum id value'
        (fst (prepare_sankey_data True app_globals
           (loaded [\<lparr>Work_Hours = Some 0, Stress_Level = Some ''Low''\<rparr>]))) = Inr []"
  by (simp add: prepare_sankey_data_unfold value_counts_of_def stress_column_def
      loaded_def app_globals_def stress_level_labels_def pd_cut_def cut_code_bins
      groupby_size_def bin_labels_def cat_values_def cat_value_def Let_def)

subsection \<open>C4: a value on an upper bound\<close>

text \<open>
  C4 says that a record whose value lies exactly on the upper bound of a bucket is
  assigned to that bucket, not to the next one. For each of the ten buckets \<open>k\<close> and every
  row \<open>i\<close> whose \<^verbatim>\<open>Work_Hours\<close> is \<open>bins[k+1]\<close>, the column \<^verbatim>\<open>Work_Hours_Grouped\<close> that the
  call leaves in the frame has code \<open>k\<close> and label \<open>bin_labels[k]\<close> at row \<open>i\<close>.
\<close>

theorem C4_upper_bound_closed:
  assumes "k < length bin_labels"
    and "i < length (rows df)"
    and "Work_Hours (rows df ! i) = Some (bins ! Suc k)"
  shows "map_option (\<lambda>c. (codes c ! i, cat_values c ! i))
           (Work_Hours_Grouped (snd (prepare_sankey_data observed g df)))
         = Some (int k, Some (bin_labels ! k))"
proof -
  have col: "Work_Hours_Grouped (snd (prepare_sankey_data observed g df)) =
               Some (pd_cut (map Work_Hours (rows df)) bins bin_labels)"
    unfolding prepare_sankey_data_unfold Let_def
    by (simp split: sum.split)
  from assms(1) have k: "k < 10" by (simp add: length_bin_labels)
  have "cut_interval k (bins ! Suc k)"
    using k cut_code_interval [OF k, of "bins ! Suc k", symmetric]
    unfolding cut_code_bins
    by (auto simp add: bins_def less_Suc_eq numeral_nat)
  then have code: "cut_code bins (Some (bins ! Suc k)) = int k"
    using cut_code_interval [OF k] by simp
  from code assms(2,3) assms(1)
  show ?thesis
    unfolding col by (simp add: pd_cut_def cat_values_def cat_value_def)
qed

theorem C4_witness:
  "map_option (\<lambda>c. (codes c ! 0, cat_values c ! 0))
     (Work_Hours_Grouped (snd (prepare_sankey_data True app_globals
        (loaded [\<lparr>Work_Hours = Some 10, Stress_Level = Some ''Medium''\<rparr>]))))
   = Some (0, Some ''0-10'')"
proof -
  let ?df = "loaded [\<lparr>Work_Hours = Some 10, Stress_Level = Some ''Medium''\<rparr>]"
  have k: "(0::nat) < length bin_labels" by (simp add: length_bin_labels)
  have i: "0 < length (rows ?df)" by (simp add: loaded_def)
  have h: "Work_Hours (rows ?df ! 0) = Some (bins ! Suc 0)"
    by (simp add: loaded_def bins_def)
  from C4_upper_bound_closed [OF k i h, of True app_globals]
  show ?thesis by (simp add: bin_labels_def)
qed

subsection \<open>C5: the node list\<close>

text \<open>
  C5 says that the node list is one node per bucket in bucket order followed by one node
  per category in category order, 13 nodes for the 10 buckets and 3 stress levels, so that
  the node count is the bucket count plus the category count and the node indices are the
  positions \<open>0 .. node_count - 1\<close>. With the globals of the script the call returns, for
  every frame and either pandas default, the 13 labels and 13 colours below. For any
  globals with which the call returns, the labels are the bucket labels followed by the
  category labels, the colours are one per label, the first ten the bucket colour and the
  others those of \<^verbatim>\<open>stress_color_mapping\<close>. Nodes are addressed by their position in these
  lists, so the indices have no gaps.
\<close>

theorem C5_node_list:
  "(\<exists>res. fst (prepare_sankey_data observed app_globals df) = Inr res
      \<and> labels res = [''0-10 Hours'', ''11-20 Hours'', ''21-30 Hours'', ''31-40 Hours'',
                       ''41-50 Hours'', ''51-60 Hours'', ''61-70 Hours'', ''71-80 Hours'',
                       ''81-90 Hours'', ''91-100 Hours'',
                       ''Low Stress'', ''Medium Stress'', ''High Stress'']
      \<and> node_colors res = [''#4A90E2'', ''#4A90E2'', ''#4A90E2'', ''#4A90E2'', ''#4A90E2'',
                            ''#4A90E2'', ''#4A90E2'', ''#4A90E2'', ''#4A90E2'', ''#4A90E2'',
                            ''#7ED957'', ''#FFC107'', ''#FF4C4C''])
   \<and> (fst (prepare_sankey_data observed g df) = Inr out \<longrightarrow>
        labels out = map (\<lambda>b. b @ '' Hours'') bin_labels
                       @ map (\<lambda>c. c @ '' Stress'') (stress_level_order g)
      \<and> length (labels out) = length bin_labels + length (stress_level_order g)
      \<and> length (node_colors out) = length (labels out)
      \<and> take (length bin_labels) (node_colors out) = replicate (length bin_labels) ''#4A90E2''
      \<and> map Some (drop (length bin_labels) (node_colors out)) =
           map (stress_color_mapping g) (stress_level_labels g))"
proof
  show "\<exists>res. fst (prepare_sankey_data observed app_globals df) = Inr res
      \<and> labels res = [''0-10 Hours'', ''11-20 Hours'', ''21-30 Hours'', ''31-40 Hours'',
                       ''41-50 Hours'', ''51-60 Hours'', ''61-70 Hours'', ''71-80 Hours'',
                       ''81-90 Hours'', ''91-100 Hours'',
                       ''Low Stress'', ''Medium Stress'', ''High Stress'']
      \<and> node_colors res = [''#4A90E2'', ''#4A90E2'', ''#4A90E2'', ''#4A90E2'', ''#4A90E2'',
                            ''#4A90E2'', ''#4A90E2'', ''#4A90E2'', ''#4A90E2'', ''#4A90E2'',
                            ''#7ED957'', ''#FFC107'', ''#FF4C4C'']"
    unfolding prepare_sankey_data_app
    by (simp add: bin_labels_def stress_level_labels_def app_globals_def numeral_eq_Suc)
next
  show "fst (prepare_sankey_data observed g df) = Inr out \<longrightarrow>
        labels out = map (\<lambda>b. b @ '' Hours'') bin_labels
                       @ map (\<lambda>c. c @ '' Stress'') (stress_level_order g)
      \<and> length (labels out) = length bin_labels + length (stress_level_order g)
      \<and> length (node_colors out) = length (labels out)
      \<and> take (length bin_labels) (node_colors out) = replicate (length bin_labels) ''#4A90E2''
      \<and> map Some (drop (length bin_labels) (node_colors out)) =
           map (stress_color_mapping g) (stress_level_labels g)"
  proof
    assume "fst (prepare_sankey_data observed g df) = Inr out"
    from prepare_sankey_data_Inr [OF this]
    obtain sc where sc: "stress_colors_of (stress_color_mapping g) (stress_level_labels g) = Inr sc"
      and l: "labels out = map (\<lambda>label. label @ '' Hours'') bin_labels @ stress_level_labels g"
      and n: "node_colors out = replicate (length bin_labels) ''#4A90E2'' @ sc"
      by auto
    have len: "length sc = length (stress_level_order g)"
      using stress_colors_of_length [OF sc] by (simp add: stress_level_labels_def)
    show "labels out = map (\<lambda>b. b @ '' Hours'') bin_labels
                       @ map (\<lambda>c. c @ '' Stress'') (stress_level_order g)
      \<and> length (labels out) = length bin_labels + length (stress_level_order g)
      \<and> length (node_colors out) = length (labels out)
      \<and> take (length bin_labels) (node_colors out) = replicate (length bin_labels) ''#4A90E2''
      \<and> map Some (drop (length bin_labels) (node_colors out)) =
           map (stress_color_mapping g) (stress_level_labels g)"
      unfolding l n using len stress_colors_of_values [OF sc]
      by (simp add: stress_level_labels_def)
  qed
qed

theorem C5_witness:
  "map_sum id labels (fst (prepare_sankey_data True app_globals example_df)) =
     Inr (map (\<lambda>b. b @ '' Hours'') bin_labels @ [''Low Stress'', ''Medium Stress'', ''High Stress''])
   \<and> map_sum id (length \<circ> labels) (fst (prepare_sankey_data True app_globals example_df)) =
     Inr (10 + 3)
   \<and> map_sum id (length \<circ> node_colors) (fst (prepare_sankey_data True app_globals example_df)) =
     Inr 13"
proof -
  obtain out where run: "fst (prepare_sankey_data True app_globals example_df) = Inr out"
    using prepare_sankey_data_app [of True example_df] by blast
  from C5_node_list [of True example_df app_globals out] run
  have "labels out = map (\<lambda>b. b @ '' Hours'') bin_labels
                       @ map (\<lambda>c. c @ '' Stress'') (stress_level_order app_globals)"
    and "length (labels out) = length bin_labels + length (stress_level_order app_globals)"
    and "length (node_colors out) = length (labels out)"
    by blast+
  then show ?thesis
    using run by (simp add: app_globals_def length_bin_labels)
qed

subsection \<open>C6: the index ranges of the edges\<close>

text \<open>
  C6 says that the source index of every emitted edge is below the bucket count and that
  its target index is at least the bucket count and below the node count. Whenever the
  call returns, the three edge arrays have the same length, every source index lies in
  \<open>0 .. 9\<close>, and every target index lies from the bucket count 10 up to, not including,
  the length of the node list.
\<close>

theorem C6_edge_index_ranges:
  assumes "fst (prepare_sankey_data observed g df) = Inr out"
  shows "length (source out) = length (value' out)
       \<and> length (target out) = length (value' out)
       \<and> (\<forall>s\<in>set (source out). 0 \<le> s \<and> s < int (length bin_labels))
       \<and> (\<forall>t\<in>set (target out). int (length bin_labels) \<le> t \<and> t < int (length (labels out)))"
proof -
  let ?vc = "value_counts_of observed g df"
  from prepare_sankey_data_Inr [OF assms]
  have s: "source out = codes (key_source ?vc)"
    and t: "target out = map (\<lambda>c. c + int (length bin_labels)) (codes (key_stress ?vc))"
    and v: "value' out = count ?vc"
    and l: "labels out = map (\<lambda>label. label @ '' Hours'') bin_labels @ stress_level_labels g"
    by auto
  have cats: "categories (pd_cut (map Work_Hours (rows df)) bins bin_labels) = bin_labels"
             "categories (stress_column g df) = stress_level_order g"
    by (simp_all add: pd_cut_def stress_column_def)
  have lens: "length (source out) = length (value' out)"
             "length (target out) = length (value' out)"
    unfolding s t v value_counts_of_def by (simp_all add: groupby_lengths)
  have src: "\<forall>s\<in>set (source out). 0 \<le> s \<and> s < int (length bin_labels)"
    unfolding s value_counts_of_def using groupby_source_range cats(1) by metis
  have "\<forall>c\<in>set (codes (key_stress ?vc)). 0 \<le> c \<and> c < int (length (stress_level_order g))"
    unfolding value_counts_of_def using groupby_stress_range cats(2) by metis
  then have tgt: "\<forall>t\<in>set (target out).
                    int (length bin_labels) \<le> t \<and> t < int (length (labels out))"
    unfolding t l by (auto simp add: stress_level_labels_def)
  from lens src tgt show ?thesis by blast
qed

theorem C6_witness:
  "map_sum id (\<lambda>out. zip (source out) (target out))
     (fst (prepare_sankey_data True app_globals example_df)) = Inr [(0, 10), (0, 12), (1, 10)]
   \<and> list_all (\<lambda>s. 0 \<le> s \<and> s < 10) [0, 0, 1 :: int]
   \<and> list_all (\<lambda>t. 10 \<le> t \<and> t < 13) [10, 12, 10 :: int]"
proof -
  let ?out = "\<lparr>labels = [''0-10 Hours'', ''11-20 Hours'', ''21-30 Hours'', ''31-40 Hours'',
                    ''41-50 Hours'', ''51-60 Hours'', ''61-70 Hours'', ''71-80 Hours'',
                    ''81-90 Hours'', ''91-100 Hours'',
                    ''Low Stress'', ''Medium Stress'', ''High Stress''],
          node_colors = [''#4A90E2'', ''#4A90E2'', ''#4A90E2'', ''#4A90E2'', ''#4A90E2'',
                         ''#4A90E2'', ''#4A90E2'', ''#4A90E2'', ''#4A90E2'', ''#4A90E2'',
                         ''#7ED957'', ''#FFC107'', ''#FF4C4C''],
          source = [0, 0, 1],
          target = [10, 12, 10],
          value' = [1, 1, 1],
          link_colors = [''rgba(126,217,87,0.5)'', ''rgba(255,76,76,0.5)'',
                         ''rgba(126,217,87,0.5)'']\<rparr>"
  have run: "fst (prepare_sankey_data True app_globals example_df) = Inr ?out"
    by (simp add: example_observed)
  from C6_edge_index_ranges [OF run]
  have "list_all (\<lambda>s. 0 \<le> s \<and> s < 10) [0, 0, 1 :: int]"
    and "list_all (\<lambda>t. 10 \<le> t \<and> t < 13) [10, 12, 10 :: int]"
    by (simp_all add: length_bin_labels)
  then show ?thesis using run by simp
qed

subsection \<open>C7: what the call does to the frame\<close>

lemma prepare_sankey_data_frame:
  "snd (prepare_sankey_data observed g df) =
     (if distinct (stress_level_order g)
      then df\<lparr>Work_Hours_Grouped := Some (pd_cut (map Work_Hours (rows df)) bins bin_labels),
               Stress_Level_Sorted := Some (stress_column g df)\<rparr>
      else df\<lparr>Work_Hours_Grouped := Some (pd_cut (map Work_Hours (rows df)) bins bin_labels)\<rparr>)"
  unfolding prepare_sankey_data_unfold Let_def
  by (simp split: sum.split)

lemma prepare_sankey_data_reads_rows:
  "rows df' = rows df \<Longrightarrow>
     fst (prepare_sankey_data observed g df') = fst (prepare_sankey_data observed g df)"
  unfolding prepare_sankey_data_unfold Let_def value_counts_of_def stress_column_def
  by (simp split: sum.split)

text \<open>
  C7 says that the builder has no side effects and that the loaded record set, its
  columns and its values, is unchanged by a call. The function assigns two columns of the
  global frame (lines 155, 166 and 167), so the frame is not unchanged. The theorem is the
  claim as amended: the call leaves the loaded rows as they were; it sets the column
  \<^verbatim>\<open>Work_Hours_Grouped\<close> to the binned hours; it sets the column \<^verbatim>\<open>Stress_Level_Sorted\<close> to the
  categorical of line 167 unless that line raises; and what it returns depends on the
  loaded rows only, not on what the two columns held before.
\<close>

theorem C7_frame_effect:
  "rows (snd (prepare_sankey_data observed g df)) = rows df
   \<and> Work_Hours_Grouped (snd (prepare_sankey_data observed g df)) =
       Some (pd_cut (map Work_Hours (rows df)) bins bin_labels)
   \<and> Stress_Level_Sorted (snd (prepare_sankey_data observed g df)) =
       (case Categorical (map Stress_Level (rows df)) (stress_level_order g) of
          Inl e \<Rightarrow> Stress_Level_Sorted df
        | Inr c \<Rightarrow> Some c)
   \<and> fst (prepare_sankey_data observed g
            (df\<lparr>Work_Hours_Grouped := a, Stress_Level_Sorted := b\<rparr>)) =
       fst (prepare_sankey_data observed g df)"
proof -
  have "fst (prepare_sankey_data observed g
            (df\<lparr>Work_Hours_Grouped := a, Stress_Level_Sorted := b\<rparr>)) =
        fst (prepare_sankey_data observed g df)"
    by (rule prepare_sankey_data_reads_rows) simp
  then show ?thesis
    unfolding prepare_sankey_data_frame
    by (simp add: Categorical_def stress_column_def o_def)
qed

text \<open>
  The claim as stated fails on the example: the frame has neither column before the call
  and both after it.
\<close>

theorem C7_counterexample:
  "Work_Hours_Grouped example_df = None
   \<and> Stress_Level_Sorted example_df = None
   \<and> snd (prepare_sankey_data True app_globals example_df) =
       \<lparr>rows = rows example_df,
        Work_Hours_Grouped = Some \<lparr>categories = bin_labels, codes = [0, 1, 0]\<rparr>,
        Stress_Level_Sorted = Some \<lparr>categories = [''Low'', ''Medium'', ''High''],
                                     codes = [0, 0, 2]\<rparr>\<rparr>"
  by (simp add: example_observed) (simp add: example_df_def loaded_def)

theorem C7_witness:
  "rows (snd (prepare_sankey_data True app_globals example_df)) = rows example_df
   \<and> Work_Hours_Grouped (snd (prepare_sankey_data True app_globals example_df)) =
       Some \<lparr>categories = bin_labels, codes = [0, 1, 0]\<rparr>"
  using C7_frame_effect [of True app_globals example_df]
  by (simp add: example_df_def loaded_def pd_cut_def cut_code_bins)

subsection \<open>C8: calling twice\<close>

text \<open>
  C8 says that a second call with the same inputs returns the same labels, node colours,
  source, target, value and link colour lists as the first. The second call runs on the
  frame the first call has left, with its two assigned columns: it returns exactly what
  the first call returned (a result or the same exception), and it leaves the frame as
  the first call left it.
\<close>

theorem C8_second_call_same_result:
  "fst (prepare_sankey_data observed g (snd (prepare_sankey_data observed g df))) =
     fst (prepare_sankey_data observed g df)
   \<and> snd (prepare_sankey_data observed g (snd (prepare_sankey_data observed g df))) =
     snd (prepare_sankey_data observed g df)"
proof -
  have r: "rows (snd (prepare_sankey_data observed g df)) = rows df"
    unfolding prepare_sankey_data_frame by simp
  have first: "fst (prepare_sankey_data observed g (snd (prepare_sankey_data observed g df))) =
                 fst (prepare_sankey_data observed g df)"
    using r by (rule prepare_sankey_data_reads_rows)
  have second: "snd (prepare_sankey_data observed g (snd (prepare_sankey_data observed g df))) =
                  snd (prepare_sankey_data observed g df)"
    unfolding prepare_sankey_data_frame [of observed g "snd (prepare_sankey_data observed g df)"] r
    unfolding prepare_sankey_data_frame
    by (simp add: stress_column_def)
  from first second show ?thesis ..
qed

subsection \<open>C9: a category without a colour\<close>

text \<open>
  C9 says that when a category of the fixed order has no colour in the category colour
  map or in the per-category edge colour map, the builder fails at once with a
  configuration error. The code has no edge colour map: lines 173-180 choose the tint by
  an if/elif/else whose last branch takes every category other than "Low" and "Medium",
  so a category without a tint of its own gets the tint written for "High" and nothing
  fails. The theorem is the claim as amended, in three parts. When some label of
  \<^verbatim>\<open>stress_level_labels\<close> is not a key of \<^verbatim>\<open>stress_color_mapping\<close>, the call returns no
  result but raises KeyError (line 183), or ValueError (line 167) when the categories
  repeat; it raises after line 155 has assigned \<^verbatim>\<open>Work_Hours_Grouped\<close> in the frame. When
  the categories do not repeat and every label is a key of \<^verbatim>\<open>stress_color_mapping\<close>, the
  call returns a result, whatever the categories are, and the tint of every edge is the
  one the if/elif/else gives to the category of the edge's target. And every category
  other than "Low" and "Medium" has the tint of the last branch.
\<close>

theorem C9_missing_node_colour_raises:
  "(l \<in> set (stress_level_labels g) \<and> stress_color_mapping g l = None \<longrightarrow>
      fst (prepare_sankey_data observed g df) =
        Inl (if distinct (stress_level_order g) then KeyError else ValueError)
      \<and> Work_Hours_Grouped (snd (prepare_sankey_data observed g df)) =
          Some (pd_cut (map Work_Hours (rows df)) bins bin_labels))
   \<and> (distinct (stress_level_order g)
        \<and> (\<forall>l\<in>set (stress_level_labels g). stress_color_mapping g l \<noteq> None) \<longrightarrow>
      (\<exists>out. fst (prepare_sankey_data observed g df) = Inr out
         \<and> link_colors out =
             map (\<lambda>t. link_color (cat_value (stress_level_order g) (t - int (length bin_labels))))
               (target out)))
   \<and> (c \<noteq> ''Low'' \<and> c \<noteq> ''Medium'' \<longrightarrow> link_color (Some c) = ''rgba(255,76,76,0.5)'')"
proof (intro conjI impI)
  assume h: "l \<in> set (stress_level_labels g) \<and> stress_color_mapping g l = None"
  then have "stress_colors_of (stress_color_mapping g) (stress_level_labels g) = Inl KeyError"
    using stress_colors_of_missing [of l "stress_level_labels g" "stress_color_mapping g"]
    by blast
  then show "fst (prepare_sankey_data observed g df) =
           Inl (if distinct (stress_level_order g) then KeyError else ValueError)"
    unfolding prepare_sankey_data_unfold Let_def by simp
next
  show "Work_Hours_Grouped (snd (prepare_sankey_data observed g df)) =
          Some (pd_cut (map Work_Hours (rows df)) bins bin_labels)"
    unfolding prepare_sankey_data_frame by simp
next
  assume h: "distinct (stress_level_order g)
        \<and> (\<forall>l\<in>set (stress_level_labels g). stress_color_mapping g l \<noteq> None)"
  then obtain sc where
    sc: "stress_colors_of (stress_color_mapping g) (stress_level_labels g) = Inr sc"
    using stress_colors_of_total [of "stress_level_labels g" "stress_color_mapping g"] by blast
  let ?vc = "value_counts_of observed g df"
  let ?out = "\<lparr>labels = map (\<lambda>label. label @ '' Hours'') bin_labels @ stress_level_labels g,
               node_colors = replicate (length bin_labels) ''#4A90E2'' @ sc,
               source = codes (key_source ?vc),
               target = map (\<lambda>c. c + int (length bin_labels)) (codes (key_stress ?vc)),
               value' = count ?vc,
               link_colors = map link_color (cat_values (key_stress ?vc))\<rparr>"
  have run: "fst (prepare_sankey_data observed g df) = Inr ?out"
    unfolding prepare_sankey_data_unfold Let_def using h sc by simp
  have cats: "categories (key_stress ?vc) = stress_level_order g"
    by (simp add: value_counts_of_def groupby_size_def stress_column_def Let_def)
  have "link_colors ?out =
          map (\<lambda>t. link_color (cat_value (stress_level_order g) (t - int (length bin_labels))))
            (target ?out)"
    by (simp add: cat_values_def cats o_def)
  with run show "\<exists>out. fst (prepare_sankey_data observed g df) = Inr out
         \<and> link_colors out =
             map (\<lambda>t. link_color (cat_value (stress_level_order g) (t - int (length bin_labels))))
               (target out)"
    by blast
next
  assume "c \<noteq> ''Low'' \<and> c \<noteq> ''Medium''"
  then show "link_color (Some c) = ''rgba(255,76,76,0.5)''"
    by (simp add: link_color_def)
qed

text \<open>
  The claim as stated fails with a fourth category "Burnout" that has a node colour: the
  if/elif/else names no tint for it, and the call returns an edge for a "Burnout" record
  with the tint of the last branch.
\<close>

theorem C9_counterexample:
  "fst (prepare_sankey_data True
     \<lparr>stress_level_order = [''Low'', ''Medium'', ''High'', ''Burnout''],
      stress_color_mapping =
        [''Low Stress'' \<mapsto> ''#7ED957'', ''Medium Stress'' \<mapsto> ''#FFC107'',
         ''High Stress'' \<mapsto> ''#FF4C4C'', ''Burnout Stress'' \<mapsto> ''#000000'']\<rparr>
     (loaded [\<lparr>Work_Hours = Some 5, Stress_Level = Some ''Burnout''\<rparr>])) =
   Inr \<lparr>labels = [''0-10 Hours'', ''11-20 Hours'', ''21-30 Hours'', ''31-40 Hours'',
                  ''41-50 Hours'', ''51-60 Hours'', ''61-70 Hours'', ''71-80 Hours'',
                  ''81-90 Hours'', ''91-100 Hours'',
                  ''Low Stress'', ''Medium Stress'', ''High Stress'', ''Burnout Stress''],
        node_colors = [''#4A90E2'', ''#4A90E2'', ''#4A90E2'', ''#4A90E2'', ''#4A90E2'',
                       ''#4A90E2'', ''#4A90E2'', ''#4A90E2'', ''#4A90E2'', ''#4A90E2'',
                       ''#7ED957'', ''#FFC107'', ''#FF4C4C'', ''#000000''],
        source = [0],
        target = [13],
        value' = [1],
        link_colors = [''rgba(255,76,76,0.5)'']\<rparr>"
  by (simp add: prepare_sankey_data_unfold value_counts_of_def stress_column_def
      loaded_def stress_level_labels_def pd_cut_def cut_code_bins groupby_size_def
      cat_values_def cat_value_def link_color_def bin_labels_def Let_def)

text \<open>
  The amended claim at three inputs: the globals of the script without the colour of
  "High Stress" raise KeyError; the globals of the script return, on the example, edges
  whose tints are those of the categories of their targets; and "High" has the tint of
  the last branch.
\<close>

theorem C9_witness:
  "''High Stress'' \<in> set (stress_level_labels
       \<lparr>stress_level_order = [''Low'', ''Medium'', ''High''],
        stress_color_mapping = [''Low Stress'' \<mapsto> ''#7ED957'', ''Medium Stress'' \<mapsto> ''#FFC107'']\<rparr>)
   \<and> [''Low Stress'' \<mapsto> ''#7ED957'', ''Medium Stress'' \<mapsto> ''#FFC107''] ''High Stress'' = None
   \<and> fst (prepare_sankey_data True
       \<lparr>stress_level_order = [''Low'', ''Medium'', ''High''],
        stress_color_mapping = [''Low Stress'' \<mapsto> ''#7ED957'', ''Medium Stress'' \<mapsto> ''#FFC107'']\<rparr>
       example_df) = Inl KeyError
   \<and> distinct (stress_level_order app_globals)
   \<and> list_all (\<lambda>l. stress_color_mapping app_globals l \<noteq> None) (stress_level_labels app_globals)
   \<and> map_sum id link_colors (fst (prepare_sankey_data True app_globals example_df)) =
       Inr (map (\<lambda>t. link_color (cat_value [''Low'', ''Medium'', ''High''] (t - 10))) [10, 12, 10])
   \<and> link_color (Some ''High'') = ''rgba(255,76,76,0.5)''"
proof -
  let ?g = "\<lparr>stress_level_order = [''Low'', ''Medium'', ''High''],
        stress_color_mapping = [''Low Stress'' \<mapsto> ''#7ED957'', ''Medium Stress'' \<mapsto> ''#FFC107'']\<rparr>"
  have l: "''High Stress'' \<in> set (stress_level_labels ?g)"
    by (simp add: stress_level_labels_def)
  have m: "stress_color_mapping ?g ''High Stress'' = None"
    by simp
  from C9_missing_node_colour_raises [of "''High Stress''" ?g True example_df] l m
  have raises: "fst (prepare_sankey_data True ?g example_df) = Inl KeyError"
    by simp
  have d: "distinct (stress_level_order app_globals)"
    by (simp add: app_globals_def)
  have all: "\<forall>l\<in>set (stress_level_labels app_globals). stress_color_mapping app_globals l \<noteq> None"
    by (simp add: app_globals_def stress_level_labels_def)
  have t: "map_sum id target (fst (prepare_sankey_data True app_globals example_df)) =
             Inr [10, 12, 10]"
    by (simp add: example_observed)
  from C9_missing_node_colour_raises [of _ app_globals True example_df] d all
  obtain out where run: "fst (prepare_sankey_data True app_globals example_df) = Inr out"
    and tints: "link_colors out =
             map (\<lambda>t. link_color (cat_value (stress_level_order app_globals)
                                   (t - int (length bin_labels)))) (target out)"
    by blast
  from t run have tgt: "target out = [10, 12, 10]" by simp
  have colours: "map_sum id link_colors (fst (prepare_sankey_data True app_globals example_df)) =
       Inr (map (\<lambda>t. link_color (cat_value [''Low'', ''Medium'', ''High''] (t - 10))) [10, 12, 10])"
    unfolding run using tints tgt by (simp add: app_globals_def length_bin_labels)
  have high: "link_color (Some ''High'') = ''rgba(255,76,76,0.5)''"
    using C9_missing_node_colour_raises [of _ _ _ _ "''High''"] by simp
  from l m raises d all colours high show ?thesis
    by (simp add: list_all_iff)
qed

subsection \<open>C10: the sample of the violin plot\<close>

text \<open>
  C10 says that line 93 draws a sample of exactly 3500 rows without replacement with seed
  42, and that on a health dataset of fewer than 3500 rows the sampling raises an error.
  Whatever the generator does, a dataset of fewer than 3500 rows raises ValueError. On a
  dataset of at least 3500 rows, when the generator's permutation is a permutation of the
  row positions, the sample is the rows at 3500 distinct positions.
\<close>

theorem C10_sample_needs_3500_rows:
  "(length health_df < 3500 \<longrightarrow> sampled_health_df permutation_42 health_df = Inl ValueError)
   \<and> (3500 \<le> length health_df
        \<and> distinct (permutation_42 (length health_df))
        \<and> set (permutation_42 (length health_df)) = {0..<length health_df} \<longrightarrow>
      (\<exists>idx. sampled_health_df permutation_42 health_df = Inr (map (\<lambda>i. health_df ! i) idx)
         \<and> length idx = 3500 \<and> distinct idx \<and> set idx \<subseteq> {0..<length health_df}))"
proof
  show "length health_df < 3500 \<longrightarrow> sampled_health_df permutation_42 health_df = Inl ValueError"
    by (simp add: sampled_health_df_def sample_def)
next
  show "3500 \<le> length health_df
        \<and> distinct (permutation_42 (length health_df))
        \<and> set (permutation_42 (length health_df)) = {0..<length health_df} \<longrightarrow>
      (\<exists>idx. sampled_health_df permutation_42 health_df = Inr (map (\<lambda>i. health_df ! i) idx)
         \<and> length idx = 3500 \<and> distinct idx \<and> set idx \<subseteq> {0..<length health_df})"
  proof
    let ?p = "permutation_42 (length health_df)"
    assume h: "3500 \<le> length health_df \<and> distinct ?p \<and> set ?p = {0..<length health_df}"
    then have "length ?p = length health_df"
      using distinct_card [of ?p] by simp
    with h have len: "length (take 3500 ?p) = 3500" by simp
    have dist: "distinct (take 3500 ?p)" using h by simp
    have sub: "set (take 3500 ?p) \<subseteq> {0..<length health_df}"
      using h set_take_subset [of 3500 ?p] by simp
    have "sampled_health_df permutation_42 health_df =
            Inr (map (\<lambda>i. health_df ! i) (take 3500 ?p))"
      using h by (simp add: sampled_health_df_def sample_def)
    with len dist sub
    show "\<exists>idx. sampled_health_df permutation_42 health_df = Inr (map (\<lambda>i. health_df ! i) idx)
         \<and> length idx = 3500 \<and> distinct idx \<and> set idx \<subseteq> {0..<length health_df}"
      by blast
  qed
qed

theorem C10_witness:
  "sampled_health_df (\<lambda>n. rev [0..<n]) (replicate 3499 ''row'') = Inl ValueError
   \<and> map_sum id length (sampled_health_df (\<lambda>n. rev [0..<n]) (replicate 3500 ''row'')) = Inr 3500"
proof -
  have small: "length (replicate 3499 ''row'') < 3500" by simp
  have big: "3500 \<le> length (replicate 3500 ''row'')
        \<and> distinct ((\<lambda>n. rev [0..<n]) (length (replicate 3500 ''row'')))
        \<and> set ((\<lambda>n. rev [0..<n]) (length (replicate 3500 ''row''))) =
            {0..<length (replicate 3500 ''row'')}"
    by simp
  from C10_sample_needs_3500_rows [of "replicate 3499 ''row''" "\<lambda>n. rev [0..<n]"] small
  have a: "sampled_health_df (\<lambda>n. rev [0..<n]) (replicate 3499 ''row'') = Inl ValueError"
    by blast
  from C10_sample_needs_3500_rows [of "replicate 3500 ''row''" "\<lambda>n. rev [0..<n]"] big
  obtain idx where "sampled_health_df (\<lambda>n. rev [0..<n]) (replicate 3500 ''row'') =
                      Inr (map (\<lambda>i. replicate 3500 ''row'' ! i) idx)"
    and "length idx = 3500"
    by blast
  then have b: "map_sum id length (sampled_health_df (\<lambda>n. rev [0..<n]) (replicate 3500 ''row''))
                  = Inr 3500"
    by simp
  from a b show ?thesis ..
qed

end
